theory Spec2Isabelle
  imports Main
begin

section \<open>The error pipeline of src/config/express.js\<close>

text \<open>
  The file registers Express middleware in order. Three of the registered functions are
  written in the file itself: the error converter (lines 89 to 100), the 404 middleware
  (lines 105 to 108) and the error handler (lines 113 to 121). They are embedded here as
  functions on the values they read and produce. A middleware calls \<open>next(e)\<close>,
  writes the response or throws: these are the three constructors of the type
  \<open>outcome\<close>.
\<close>

subsection \<open>Values\<close>

text \<open>
  The uniform error: the fields of an \<open>APIError\<close> instance that the file reads.
  \<open>stack\<close> is the trace the runtime attached to the object, if any.
\<close>

record api_error =
  message :: string
  status :: int
  isPublic :: bool
  stack :: "string option"

text \<open>
  A validation failure of express-validation: \<open>err.errors\<close> is an array of groups,
  one per rejected field, each with an array \<open>messages\<close> of strings; \<open>err.status\<close> is
  the numeric status the library was configured with.
\<close>

record field_error =
  field :: string
  messages :: "string list"

record validation_error =
  errors :: "field_error list"
  ve_status :: int

text \<open>
  Any other thrown error: \<open>err.message\<close>, and the properties \<open>err.status\<close> and
  \<open>err.isPublic\<close>, which are \<open>undefined\<close> (here \<open>None\<close>) unless the thrower set them.
\<close>

record plain_error =
  pe_message :: string
  pe_status :: "int option"
  pe_isPublic :: "bool option"

text \<open>
  The value a failing stage hands to the error converter. The constructors are the three
  outcomes of the two \<open>instanceof\<close> tests of lines 90 and 95.
\<close>

datatype failure =
    ValidationError validation_error
  | Uniform api_error
  | Plain plain_error

text \<open>The values the error handler puts in the object it serialises.\<close>

datatype jsval =
    Undefined
  | Str string
  | Obj "(string \<times> jsval) list"

text \<open>
  What a response carries after its head: the JSON text of a value, nothing at all, or
  the HTML page of Express's final handler.
\<close>

datatype payload =
    Json jsval
  | Empty
  | Html

record response =
  statusCode :: int
  body :: payload

text \<open>
  The exception of Node's \<open>writeHead\<close> for a status code it refuses
  (\<open>ERR_HTTP_INVALID_STATUS_CODE\<close>), with the refused code.
\<close>

datatype js_error = RangeError int

text \<open>
  What a middleware does: \<open>Next e\<close> is the call \<open>next(e)\<close>; \<open>Responded r log\<close> is
  a response written with \<open>res.status(..).json(..)\<close> and no call of \<open>next\<close>, where
  \<open>log\<close> lists what line 119 passed to \<open>console.error\<close>; \<open>Raised x\<close> is
  an exception thrown out of the middleware, with nothing written and \<open>next\<close> not called.
\<close>

datatype outcome =
    Next api_error
  | Responded response "api_error list"
  | Raised js_error

text \<open>The configuration object \<open>env\<close> of ./environment, as far as the file reads it.\<close>

record env =
  nodeEnv :: string
  port :: nat

subsection \<open>Library functions the file calls\<close>

text \<open>
  \<open>Array.prototype.join\<close>: the empty string for an empty array, otherwise the first
  element followed, for each further element, by the separator and the element.
\<close>

fun join :: "string \<Rightarrow> string list \<Rightarrow> string" where
  "join sep [] = []"
| "join sep (x # xs) = foldl (\<lambda>r e. r @ sep @ e) x xs"

text \<open>
  The numeric keys of the table exported by the package http-status, with the two named
  constants the pipeline uses. \<open>httpStatus[n]\<close> is \<open>undefined\<close> for any other
  number: the table has 508 and no 509.
\<close>

definition NOT_FOUND :: int where
  "NOT_FOUND = 404"

definition INTERNAL_SERVER_ERROR :: int where
  "INTERNAL_SERVER_ERROR = 500"

definition httpStatus :: "int \<rightharpoonup> string" where
  "httpStatus = map_of
    [(100, ''Continue''), (101, ''Switching Protocols''),
     (200, ''OK''), (201, ''Created''), (202, ''Accepted''),
     (203, ''Non-Authoritative Information''), (204, ''No Content''),
     (205, ''Reset Content''), (206, ''Partial Content''), (207, ''Multi Status''),
     (208, ''Already Reported''), (226, ''IM Used''),
     (300, ''Multiple Choices''), (301, ''Moved Permanently''), (302, ''Found''),
     (303, ''See Other''), (304, ''Not Modified''), (305, ''Use Proxy''),
     (306, ''Switch Proxy''), (307, ''Temporary Redirect''), (308, ''Permanent Redirect''),
     (400, ''Bad Request''), (401, ''Unauthorized''), (402, ''Payment Required''),
     (403, ''Forbidden''), (404, ''Not Found''), (405, ''Method Not Allowed''),
     (406, ''Not Acceptable''), (407, ''Proxy Authentication Required''),
     (408, ''Request Time-out''), (409, ''Conflict''), (410, ''Gone''),
     (411, ''Length Required''), (412, ''Precondition Failed''),
     (413, ''Request Entity Too Large''), (414, ''Request-URI Too Large''),
     (415, ''Unsupported Media Type''), (416, ''Requested Range not Satisfiable''),
     (417, ''Expectation Failed''), (418, ''I'' @ [CHR 0x27] @ ''m a teapot''),
     (421, ''Misdirected Request''), (422, ''Unprocessable Entity''), (423, ''Locked''),
     (424, ''Failed Dependency''), (426, ''Upgrade Required''),
     (428, ''Precondition Required''), (429, ''Too Many Requests''),
     (431, ''Request Header Fields Too Large''), (451, ''Unavailable For Legal Reasons''),
     (500, ''Internal Server Error''), (501, ''Not Implemented''), (502, ''Bad Gateway''),
     (503, ''Service Unavailable''), (504, ''Gateway Time-out''),
     (505, ''HTTP Version not Supported''), (506, ''Variant Also Negotiates''),
     (507, ''Insufficient Storage''), (508, ''Loop Detected''),
     (510, ''Not Extended''), (511, ''Network Authentication Required'')]"

text \<open>
  \<open>res.json(obj)\<close> sends \<open>JSON.stringify(obj)\<close>, which leaves out every property
  whose value is \<open>undefined\<close>. The object of line 114 has two properties, whose
  values are strings, \<open>undefined\<close> or the empty object.
\<close>

fun json :: "jsval \<Rightarrow> jsval" where
  "json (Obj ps) = Obj (filter (\<lambda>p. snd p \<noteq> Undefined) ps)"
| "json v = v"

text \<open>
  \<open>res.status(n).json(obj)\<close>. \<open>res.status\<close> stores the number. When the response
  is written, Node's \<open>writeHead\<close> throws a \<open>RangeError\<close> for a status below 100 or
  above 999, before anything is sent. For an informational status (100 to 199) and for
  204 and 304 no body is sent: \<open>res.send\<close> empties it for 204 and 304, and Node writes
  none for the three kinds.
\<close>

definition bodiless :: "int \<Rightarrow> bool" where
  "bodiless code \<longleftrightarrow> (100 \<le> code \<and> code \<le> 199) \<or> code = 204 \<or> code = 304"

definition send :: "int \<Rightarrow> jsval \<Rightarrow> js_error + response" where
  "send code obj =
     (if code < 100 \<or> 999 < code then Inl (RangeError code)
      else Inr \<lparr>statusCode = code,
                body = (if bodiless code then Empty else Json (json obj))\<rparr>)"

text \<open>
  Reading a property of a received body: \<open>undefined\<close> when the body is no JSON object
  or has no such key.
\<close>

fun property :: "string \<Rightarrow> payload \<Rightarrow> jsval" where
  "property k (Json (Obj ps)) = (case map_of ps k of None \<Rightarrow> Undefined | Some v \<Rightarrow> v)"
| "property k b = Undefined"

text \<open>
  Express's final handler, which the router calls when the last middleware of the chain
  throws or calls \<open>next\<close> with an error. The \<open>RangeError\<close> has no status of its own
  and the status stored in the response is outside 400 to 599, so the answer is 500 with
  an HTML page.
\<close>

definition finalhandler :: "js_error \<Rightarrow> outcome" where
  "finalhandler x = Responded \<lparr>statusCode = 500, body = Html\<rparr> []"

text \<open>
  Modelled from the spec: the class \<open>APIError\<close> of ../libs/APIError, which the file
  requires and constructs but which is not among the sources. The spec's uniform error has
  \<open>message\<close>, \<open>status\<close>, \<open>isPublic\<close> and an optional \<open>stack\<close>; a status that is
  absent defaults to the Internal Server Error status and an \<open>isPublic\<close> that is absent
  defaults to false. The first argument is the trace the runtime captures when the object
  is constructed.
\<close>

definition APIError :: "string option \<Rightarrow> string \<Rightarrow> int option \<Rightarrow> bool option \<Rightarrow> api_error" where
  "APIError trace msg st pub =
     \<lparr>message = msg,
      status = (case st of None \<Rightarrow> INTERNAL_SERVER_ERROR | Some s \<Rightarrow> s),
      isPublic = (case pub of None \<Rightarrow> False | Some b \<Rightarrow> b),
      stack = trace\<rparr>"

subsection \<open>The three middleware functions\<close>

text \<open>
  Lines 89 to 100. \<open>trace\<close> is the trace of the \<open>APIError\<close> the converter constructs
  in its first two branches.
\<close>

fun convertError :: "string option \<Rightarrow> failure \<Rightarrow> outcome" where
  "convertError trace (ValidationError err) =
     (let unifiedErrorMessage =
            join '' and '' (map (\<lambda>error. join ''. '' (messages error)) (errors err))
      in Next (APIError trace unifiedErrorMessage (Some (ve_status err)) (Some True)))"
| "convertError trace (Plain err) =
     Next (APIError trace (pe_message err) (pe_status err) (pe_isPublic err))"
| "convertError trace (Uniform err) = Next err"

text \<open>Lines 105 to 108: the constructor is called with two arguments.\<close>

definition notFound :: "string option \<Rightarrow> outcome" where
  "notFound trace = Next (APIError trace ''API not found!'' (Some NOT_FOUND) None)"

text \<open>
  Lines 113 to 121. When line 114 throws, lines 118 to 120 do not run and the exception
  leaves the handler.
\<close>

definition errorHandler :: "env \<Rightarrow> api_error \<Rightarrow> outcome" where
  "errorHandler env err =
     (case send (status err) (Obj
          [(''message'',
              if isPublic err then Str (message err)
              else (case httpStatus (status err) of None \<Rightarrow> Undefined | Some t \<Rightarrow> Str t)),
           (''stack'',
              if nodeEnv env = ''dev''
              then (case stack err of None \<Rightarrow> Undefined | Some s \<Rightarrow> Str s)
              else Obj [])]) of
        Inl x \<Rightarrow> Raised x
      | Inr r \<Rightarrow> Responded r (if nodeEnv env = ''dev'' then [err] else []))"

subsection \<open>The tail of the pipeline\<close>

text \<open>
  What reaches the tail of the chain after the router mounted at /api (line 84): the
  router answered, a stage or handler failed with a value, or nothing matched.
\<close>

datatype dispatch =
    Answered response
  | Threw failure
  | Unmatched

text \<open>
  Express skips a four-argument middleware while there is no error and a three-argument
  one while there is an error. So a failure runs the converter and then the error
  handler, and an unmatched request runs the 404 middleware and then the error handler.
  The error handler is the last of the chain: what it throws goes to the final handler.
\<close>

definition handle :: "env \<Rightarrow> outcome \<Rightarrow> outcome" where
  "handle env out =
     (case out of
        Next e \<Rightarrow>
          (case errorHandler env e of
             Raised x \<Rightarrow> finalhandler x
           | Next e' \<Rightarrow> Next e'
           | Responded r log \<Rightarrow> Responded r log)
      | Responded r log \<Rightarrow> Responded r log
      | Raised x \<Rightarrow> Raised x)"

definition app :: "env \<Rightarrow> string option \<Rightarrow> dispatch \<Rightarrow> outcome" where
  "app env trace d =
     (case d of
        Answered r \<Rightarrow> Responded r []
      | Threw f \<Rightarrow> handle env (convertError trace f)
      | Unmatched \<Rightarrow> handle env (notFound trace))"

subsection \<open>The spec's description of the joined message\<close>

text \<open>
  The spec describes the validation message as the messages of each group joined by one
  delimiter and the groups joined by another. \<open>joined_by\<close> is that description: the
  elements in order with the delimiter between each two neighbours.
\<close>

fun joined_by :: "string \<Rightarrow> string list \<Rightarrow> string" where
  "joined_by sep [] = []"
| "joined_by sep [x] = x"
| "joined_by sep (x # y # ys) = x @ sep @ joined_by sep (y # ys)"

definition flattened :: "string \<Rightarrow> string \<Rightarrow> validation_error \<Rightarrow> string" where
  "flattened within across err =
     joined_by across (map (\<lambda>g. joined_by within (messages g)) (errors err))"


section \<open>Facts about the library functions\<close>

lemma foldl_sep:
  "foldl (\<lambda>r e. r @ sep @ e) (a @ b) xs = a @ foldl (\<lambda>r e. r @ sep @ e) b xs"
  by (induction xs arbitrary: b) simp_all

text \<open>The loop of \<open>join\<close> computes what the spec describes.\<close>

lemma join_joined_by: "join sep xs = joined_by sep xs"
proof (induction sep xs rule: joined_by.induct)
  case (3 sep x y ys)
  have "join sep (x # y # ys) = foldl (\<lambda>r e. r @ sep @ e) (x @ (sep @ y)) ys"
    by simp
  also have "\<dots> = x @ foldl (\<lambda>r e. r @ sep @ e) (sep @ y) ys"
    by (rule foldl_sep)
  also have "\<dots> = x @ sep @ foldl (\<lambda>r e. r @ sep @ e) y ys"
    by (simp add: foldl_sep)
  also have "\<dots> = x @ sep @ join sep (y # ys)"
    by simp
  finally show ?case using 3 by simp
qed simp_all

lemma httpStatus_500: "httpStatus 500 = Some ''Internal Server Error''"
  by (simp add: httpStatus_def)

lemma httpStatus_404: "httpStatus 404 = Some ''Not Found''"
  by (simp add: httpStatus_def)

lemma httpStatus_299: "httpStatus 299 = None"
  by (simp add: httpStatus_def)


lemma send_500: "send 500 obj = Inr \<lparr>statusCode = 500, body = Json (json obj)\<rparr>"
  by (simp add: send_def bodiless_def)

lemma send_404: "send 404 obj = Inr \<lparr>statusCode = 404, body = Json (json obj)\<rparr>"
  by (simp add: send_def bodiless_def)

lemma send_299: "send 299 obj = Inr \<lparr>statusCode = 299, body = Json (json obj)\<rparr>"
  by (simp add: send_def bodiless_def)

section \<open>The error converter\<close>

text \<open>
  C1, as the code has it. For every validation failure with at least one group, the
  converter forwards a uniform error whose message is the messages of each group joined
  by a full stop followed by a space, the groups joined by \<open>and\<close> between two spaces;
  its status is the failure's status and its \<open>isPublic\<close> is true.
\<close>

theorem convertError_validation:
  "errors err \<noteq> [] \<Longrightarrow>
   convertError trace (ValidationError err) =
     Next \<lparr>message = flattened ''. '' '' and '' err, status = ve_status err,
           isPublic = True, stack = trace\<rparr>"
  by (simp add: APIError_def flattened_def join_joined_by)

text \<open>Two groups, the first with two messages.\<close>

theorem convertError_validation_witness:
  "errors \<lparr>errors = [\<lparr>field = ''email'', messages = [''a'', ''b'']\<rparr>,
                      \<lparr>field = ''age'', messages = [''c'']\<rparr>], ve_status = 400\<rparr> \<noteq> []
   \<and> convertError None
        (ValidationError \<lparr>errors = [\<lparr>field = ''email'', messages = [''a'', ''b'']\<rparr>,
                                     \<lparr>field = ''age'', messages = [''c'']\<rparr>], ve_status = 400\<rparr>) =
      Next \<lparr>message = ''a. b and c'', status = 400, isPublic = True, stack = None\<rparr>"
  using convertError_validation
    [of "\<lparr>errors = [\<lparr>field = ''email'', messages = [''a'', ''b'']\<rparr>,
                     \<lparr>field = ''age'', messages = [''c'']\<rparr>], ve_status = 400\<rparr>" None]
  by (simp add: flattened_def)

text \<open>
  C1 as stated joins the messages of a group by a full stop alone. One group with the
  messages \<open>a\<close> and \<open>b\<close>: the converter's message is \<open>a. b\<close>, the stated one is
  \<open>a.b\<close>.
\<close>

theorem convertError_validation_dot_counterexample:
  "convertError None
     (ValidationError \<lparr>errors = [\<lparr>field = ''email'', messages = [''a'', ''b'']\<rparr>],
                       ve_status = 400\<rparr>) =
     Next \<lparr>message = ''a. b'', status = 400, isPublic = True, stack = None\<rparr>
   \<and> flattened ''.'' '' and ''
       \<lparr>errors = [\<lparr>field = ''email'', messages = [''a'', ''b'']\<rparr>], ve_status = 400\<rparr> = ''a.b''
   \<and> ''a. b'' \<noteq> ''a.b''"
  by (simp add: APIError_def flattened_def)

text \<open>
  C3. The converter forwards a uniform error as it is, and converting the converter's own
  output again changes nothing: whatever failure \<open>f\<close> it is given, it forwards some
  uniform error \<open>e\<close>, and given \<open>e\<close> it forwards \<open>e\<close>.
\<close>

theorem convertError_idempotent:
  "convertError trace (Uniform err) = Next err
   \<and> (\<exists>e. convertError trace f = Next e \<and> convertError trace' (Uniform e) = Next e)"
  by (cases f) (simp_all add: Let_def)

text \<open>
  C4. An error that is neither a validation failure nor a uniform error is forwarded as a
  uniform error with the same message, with its status or 500 when it has none, and with
  its \<open>isPublic\<close> or false when it has none. For a plain error that sets neither, the
  response has status 500 and the message \<open>Internal Server Error\<close>.
\<close>

theorem convertError_plain:
  "convertError trace (Plain err) =
     Next \<lparr>message = pe_message err,
           status = (case pe_status err of None \<Rightarrow> 500 | Some s \<Rightarrow> s),
           isPublic = (case pe_isPublic err of None \<Rightarrow> False | Some b \<Rightarrow> b),
           stack = trace\<rparr>
   \<and> (\<exists>r log. app env trace
                  (Threw (Plain \<lparr>pe_message = m, pe_status = None, pe_isPublic = None\<rparr>)) =
                Responded r log
        \<and> statusCode r = 500
        \<and> property ''message'' (body r) = Str ''Internal Server Error'')"
  by (simp add: app_def handle_def APIError_def errorHandler_def INTERNAL_SERVER_ERROR_def
        httpStatus_500 send_500 split: option.split)




section \<open>The 404 middleware\<close>

text \<open>
  C2, as the code has it. For a request that matched no route the response has status 404
  and its message is \<open>Not Found\<close>, the text of status 404: the error the 404
  middleware forwards has the message \<open>API not found!\<close> and is not public.
\<close>

theorem unmatched_not_found:
  "\<exists>r log. app env trace Unmatched = Responded r log
     \<and> statusCode r = 404
     \<and> property ''message'' (body r) = Str ''Not Found''
     \<and> notFound trace =
         Next \<lparr>message = ''API not found!'', status = 404, isPublic = False, stack = trace\<rparr>"
  by (simp add: app_def handle_def notFound_def APIError_def errorHandler_def NOT_FOUND_def
        httpStatus_404 send_404)

text \<open>
  C2 as stated gives the response the message \<open>API not found!\<close>. In mode \<open>prod\<close>
  the whole response to an unmatched request is this one.
\<close>

theorem unmatched_message_counterexample:
  "app \<lparr>nodeEnv = ''prod'', port = 3000\<rparr> None Unmatched =
     Responded \<lparr>statusCode = 404,
                body = Json (Obj [(''message'', Str ''Not Found''), (''stack'', Obj [])])\<rparr> []
   \<and> ''Not Found'' \<noteq> ''API not found!''"
  by (simp add: app_def handle_def notFound_def APIError_def errorHandler_def NOT_FOUND_def
        httpStatus_404 send_404)

section \<open>The error handler\<close>

text \<open>
  C5. For an error that is not public and has status 500, the response's message is
  \<open>Internal Server Error\<close>, and the error's own message has no part in the response:
  the same error with any other message gets the same response.
\<close>

theorem errorHandler_hides_message:
  assumes "\<not> isPublic err" and "status err = 500"
  shows "\<exists>r log. errorHandler env err = Responded r log
     \<and> property ''message'' (body r) = Str ''Internal Server Error''
     \<and> (\<forall>m. \<exists>log'. errorHandler env (err\<lparr>message := m\<rparr>) = Responded r log')"
  using assms by (simp add: errorHandler_def httpStatus_500 send_500 split: option.split)

theorem errorHandler_hides_message_witness:
  "\<not> isPublic \<lparr>message = ''db password rejected'', status = 500, isPublic = False, stack = None\<rparr>
   \<and> status \<lparr>message = ''db password rejected'', status = 500, isPublic = False, stack = None\<rparr>
       = 500
   \<and> errorHandler \<lparr>nodeEnv = ''prod'', port = 3000\<rparr>
        \<lparr>message = ''db password rejected'', status = 500, isPublic = False, stack = None\<rparr> =
      Responded \<lparr>statusCode = 500,
                 body = Json (Obj [(''message'', Str ''Internal Server Error''),
                                   (''stack'', Obj [])])\<rparr> []"
  using errorHandler_hides_message
    [of "\<lparr>message = ''db password rejected'', status = 500, isPublic = False, stack = None\<rparr>"
        "\<lparr>nodeEnv = ''prod'', port = 3000\<rparr>"]
  by (simp add: errorHandler_def httpStatus_500 send_500)







text \<open>
  C8, as the code has it. For every error whose status is between 100 and 999 the error
  handler writes a response with that status, and for no error does it call \<open>next\<close>.
\<close>

theorem errorHandler_terminal:
  "(100 \<le> status err \<and> status err \<le> 999 \<longrightarrow>
      (\<exists>r log. errorHandler env err = Responded r log \<and> statusCode r = status err))
   \<and> (\<forall>e. errorHandler env err \<noteq> Next e)"
  by (auto simp add: errorHandler_def send_def)

text \<open>A public error with status 404 in mode \<open>prod\<close>.\<close>

theorem errorHandler_terminal_witness:
  "100 \<le> status \<lparr>message = ''no such id'', status = 404, isPublic = True, stack = None\<rparr>
   \<and> status \<lparr>message = ''no such id'', status = 404, isPublic = True, stack = None\<rparr> \<le> 999
   \<and> errorHandler \<lparr>nodeEnv = ''prod'', port = 3000\<rparr>
        \<lparr>message = ''no such id'', status = 404, isPublic = True, stack = None\<rparr> =
      Responded \<lparr>statusCode = 404,
                 body = Json (Obj [(''message'', Str ''no such id''), (''stack'', Obj [])])\<rparr> []"
  using errorHandler_terminal
    [of "\<lparr>message = ''no such id'', status = 404, isPublic = True, stack = None\<rparr>"
        "\<lparr>nodeEnv = ''prod'', port = 3000\<rparr>"]
  by (simp add: errorHandler_def send_def bodiless_def)

text \<open>
  C8 as stated has the handler write the response for every error. For an error with
  status 1000 it writes nothing: line 114 throws, and the response the caller gets, 500
  with an HTML page, is written by Express's final handler, to which control passes.
\<close>

theorem errorHandler_terminal_counterexample:
  "errorHandler \<lparr>nodeEnv = ''prod'', port = 3000\<rparr>
       \<lparr>message = ''boom'', status = 1000, isPublic = True, stack = None\<rparr> =
     Raised (RangeError 1000)
   \<and> app \<lparr>nodeEnv = ''prod'', port = 3000\<rparr> None
       (Threw (Uniform \<lparr>message = ''boom'', status = 1000, isPublic = True, stack = None\<rparr>)) =
     Responded \<lparr>statusCode = 500, body = Html\<rparr> []"
  by (simp add: app_def handle_def errorHandler_def send_def finalhandler_def)

text \<open>
  C9. There is an error that is not public and whose status is no key of the status-text
  table (status 299) for which the body's \<open>message\<close> is no string: the lookup gives
  \<open>undefined\<close> and the body has no \<open>message\<close> field.
\<close>

theorem errorHandler_message_missing:
  "\<exists>err. \<not> isPublic err \<and> status err \<notin> dom httpStatus
     \<and> (\<exists>r log. errorHandler env err = Responded r log
           \<and> property ''message'' (body r) = Undefined
           \<and> (\<forall>m. property ''message'' (body r) \<noteq> Str m))"
  by (rule exI [of _ "\<lparr>message = ''boom'', status = 299, isPublic = False, stack = None\<rparr>"])
     (simp add: errorHandler_def httpStatus_299 send_299 domIff)

end
